theory Spec2Isabelle
  imports Complex_Main "HOL-Library.AList"
begin

section \<open>Python values, errors and output\<close>

text \<open>
  The values the program handles are the ones \<open>json.loads\<close> produces and the table
  literals of \<open>PPO.py\<close>: \<open>None\<close>, booleans, integers, floats, strings, lists and
  dictionaries. A dictionary is an association list in insertion order with one pair
  per key. Python and numpy floats are modelled as real numbers throughout: rounding,
  overflow, infinities and NaN of IEEE arithmetic are not part of the model.
\<close>

datatype pyval =
    PNone
  | PBool bool
  | PInt int
  | PFloat real
  | PStr string
  | PList "pyval list"
  | PDict "(string \<times> pyval) list"

type_synonym pydict = "(string \<times> pyval) list"

text \<open>Every exception the modelled code can raise is a value; names carry the key.\<close>

datatype py_error =
    IndexError
  | KeyError string
  | TypeError
  | ValueError
  | AttributeError string
  | NameError string

text \<open>
  What the program prints and the one call it makes to the emulator boundary, as
  structured events: the text of an f-string is not modelled, its arguments are.
\<close>

datatype event =
    NoMcsTableFound pyval
  | EpisodeTotalReward nat real
  | AdjustedPower pyval real pyval
  | ErrorHandlingClient py_error
  | ApplyOptimizedSettings pyval real pyval
  | ErrorApplyingSettings pyval py_error

text \<open>The number a Python numeric value stands for (\<open>bool\<close> is a subclass of \<open>int\<close>).\<close>

fun num_val :: "pyval \<Rightarrow> real option" where
  "num_val (PBool b) = Some (if b then 1 else 0)"
| "num_val (PInt i) = Some (real_of_int i)"
| "num_val (PFloat r) = Some r"
| "num_val v = None"

text \<open>
  \<open>a == b\<close>: numbers compare by value across \<open>bool\<close>, \<open>int\<close> and \<open>float\<close>; a number
  never equals a non-number. Two non-numbers are compared structurally (the program
  compares table entries, which hold numbers, strings and \<open>None\<close>, so no comparison
  has a container on both sides).
\<close>

definition py_eq :: "pyval \<Rightarrow> pyval \<Rightarrow> bool" where
  "py_eq a b =
     (case (num_val a, num_val b) of
        (Some x, Some y) \<Rightarrow> x = y
      | (None, None) \<Rightarrow> a = b
      | _ \<Rightarrow> False)"

text \<open>\<open>xs[i]\<close> on a list or tuple with an integer: negative indices count from the end.\<close>

definition seq_get :: "'a list \<Rightarrow> int \<Rightarrow> py_error + 'a" where
  "seq_get xs i =
     (if 0 \<le> i \<and> i < int (length xs) then Inr (xs ! nat i)
      else if i < 0 \<and> - int (length xs) \<le> i then Inr (xs ! nat (int (length xs) + i))
      else Inl IndexError)"

text \<open>\<open>xs[v]\<close> with any value as the index: only \<open>int\<close> and \<open>bool\<close> are indices.\<close>

fun seq_index :: "'a list \<Rightarrow> pyval \<Rightarrow> py_error + 'a" where
  "seq_index xs (PInt i) = seq_get xs i"
| "seq_index xs (PBool b) = seq_get xs (if b then 1 else 0)"
| "seq_index xs v = Inl TypeError"

text \<open>\<open>d[k]\<close> and \<open>d.get(k, default)\<close> on a dictionary with a string key.\<close>

definition dict_getitem :: "pydict \<Rightarrow> string \<Rightarrow> py_error + pyval" where
  "dict_getitem d k = (case map_of d k of None \<Rightarrow> Inl (KeyError k) | Some v \<Rightarrow> Inr v)"

definition dict_get :: "pydict \<Rightarrow> string \<Rightarrow> pyval \<Rightarrow> pyval" where
  "dict_get d k dflt = (case map_of d k of None \<Rightarrow> dflt | Some v \<Rightarrow> v)"

section \<open>The rate table (\<open>mcs_tables\<close>, \<open>get_modulation_and_datarate\<close>)\<close>

text \<open>Each table entry is a tuple, kept as the list of its components.\<close>

definition mcs_tables :: "(string \<times> pyval list list) list" where
  "mcs_tables =
   [(''802.11a'',
       [[PStr ''BPSK'', PFloat 6.0], [PStr ''BPSK'', PFloat 9.0],
        [PStr ''QPSK'', PFloat 12.0], [PStr ''QPSK'', PFloat 18.0],
        [PStr ''16-QAM'', PFloat 24.0], [PStr ''16-QAM'', PFloat 36.0],
        [PStr ''64-QAM'', PFloat 48.0], [PStr ''64-QAM'', PFloat 54.0]]),
    (''802.11b'',
       [[PStr ''DSSS'', PFloat 1.0], [PStr ''DSSS'', PFloat 2.0],
        [PStr ''CCK'', PFloat 5.5], [PStr ''CCK'', PFloat 11.0]]),
    (''802.11g'',
       [[PStr ''BPSK'', PFloat 6.0], [PStr ''BPSK'', PFloat 9.0],
        [PStr ''QPSK'', PFloat 12.0], [PStr ''QPSK'', PFloat 18.0],
        [PStr ''16-QAM'', PFloat 24.0], [PStr ''16-QAM'', PFloat 36.0],
        [PStr ''64-QAM'', PFloat 48.0], [PStr ''64-QAM'', PFloat 54.0]]),
    (''802.11n'',
       [[PInt 0, PStr ''BPSK'', PFloat 6.5, PFloat 13.5],
        [PInt 1, PStr ''QPSK'', PFloat 13.0, PFloat 27.0],
        [PInt 2, PStr ''QPSK'', PFloat 19.5, PFloat 40.5],
        [PInt 3, PStr ''16-QAM'', PFloat 26.0, PFloat 54.0],
        [PInt 4, PStr ''16-QAM'', PFloat 39.0, PFloat 81.0],
        [PInt 5, PStr ''64-QAM'', PFloat 52.0, PFloat 108.0],
        [PInt 6, PStr ''64-QAM'', PFloat 58.5, PFloat 121.5],
        [PInt 7, PStr ''64-QAM'', PFloat 65.0, PFloat 135.0]]),
    (''802.11ac'',
       [[PInt 0, PStr ''BPSK'', PFloat 6.5, PFloat 13.5, PFloat 29.3, PFloat 58.5],
        [PInt 1, PStr ''QPSK'', PFloat 13.0, PFloat 27.0, PFloat 58.5, PFloat 117.0],
        [PInt 2, PStr ''QPSK'', PFloat 19.5, PFloat 40.5, PFloat 87.8, PFloat 175.5],
        [PInt 3, PStr ''16-QAM'', PFloat 26.0, PFloat 54.0, PFloat 117.0, PFloat 234.0],
        [PInt 4, PStr ''16-QAM'', PFloat 39.0, PFloat 81.0, PFloat 175.5, PFloat 351.0],
        [PInt 5, PStr ''64-QAM'', PFloat 52.0, PFloat 108.0, PFloat 234.0, PFloat 468.0],
        [PInt 6, PStr ''64-QAM'', PFloat 58.5, PFloat 121.5, PFloat 263.3, PFloat 526.5],
        [PInt 7, PStr ''64-QAM'', PFloat 65.0, PFloat 135.0, PFloat 292.5, PFloat 585.0],
        [PInt 8, PStr ''256-QAM'', PFloat 78.0, PFloat 162.0, PFloat 351.0, PFloat 702.0],
        [PInt 9, PStr ''256-QAM'', PNone, PNone, PFloat 390.0, PFloat 780.0]]),
    (''802.11ax'',
       [[PInt 0, PStr ''BPSK'', PFloat 7.3, PFloat 15.0, PFloat 30.0, PFloat 60.0],
        [PInt 1, PStr ''QPSK'', PFloat 14.6, PFloat 30.0, PFloat 60.0, PFloat 120.0],
        [PInt 2, PStr ''QPSK'', PFloat 21.9, PFloat 45.0, PFloat 90.0, PFloat 180.0],
        [PInt 3, PStr ''16-QAM'', PFloat 29.2, PFloat 60.0, PFloat 120.0, PFloat 240.0],
        [PInt 4, PStr ''16-QAM'', PFloat 43.9, PFloat 90.0, PFloat 180.0, PFloat 360.0],
        [PInt 5, PStr ''64-QAM'', PFloat 58.5, PFloat 120.0, PFloat 240.0, PFloat 480.0],
        [PInt 6, PStr ''64-QAM'', PFloat 65.8, PFloat 135.0, PFloat 270.0, PFloat 540.0],
        [PInt 7, PStr ''64-QAM'', PFloat 73.1, PFloat 150.0, PFloat 300.0, PFloat 600.0],
        [PInt 8, PStr ''256-QAM'', PFloat 87.8, PFloat 180.0, PFloat 360.0, PFloat 720.0],
        [PInt 9, PStr ''256-QAM'', PFloat 97.5, PFloat 200.0, PFloat 400.0, PFloat 800.0]]),
    (''802.11p'',
       [[PStr ''BPSK'', PFloat 3.0], [PStr ''BPSK'', PFloat 6.0],
        [PStr ''QPSK'', PFloat 12.0], [PStr ''QPSK'', PFloat 18.0],
        [PStr ''16-QAM'', PFloat 24.0], [PStr ''16-QAM'', PFloat 36.0],
        [PStr ''64-QAM'', PFloat 48.0], [PStr ''64-QAM'', PFloat 54.0]]),
    (''802.11bd'',
       [[PInt 0, PStr ''BPSK'', PFloat 7.0, PFloat 14.0],
        [PInt 1, PStr ''QPSK'', PFloat 14.0, PFloat 28.0],
        [PInt 2, PStr ''QPSK'', PFloat 21.0, PFloat 42.0],
        [PInt 3, PStr ''16-QAM'', PFloat 28.0, PFloat 56.0],
        [PInt 4, PStr ''16-QAM'', PFloat 42.0, PFloat 84.0],
        [PInt 5, PStr ''64-QAM'', PFloat 56.0, PFloat 112.0],
        [PInt 6, PStr ''64-QAM'', PFloat 63.0, PFloat 126.0],
        [PInt 7, PStr ''64-QAM'', PFloat 70.0, PFloat 140.0],
        [PInt 8, PStr ''256-QAM'', PFloat 84.0, PFloat 168.0],
        [PInt 9, PStr ''256-QAM'', PFloat 105.0, PFloat 210.0]])]"

text \<open>The standards whose rate depends on the bandwidth (the list literal of line 110).\<close>

definition adaptive_standards :: "string list" where
  "adaptive_standards = [''802.11n'', ''802.11ac'', ''802.11ax'', ''802.11bd'']"

text \<open>
  \<open>mcs_tables.get(ieee_standard)\<close>: a string is looked up, a list or a dictionary is
  unhashable (\<open>TypeError\<close>), any other value is a key the table does not have.
\<close>

fun tables_get :: "pyval \<Rightarrow> py_error + pyval list list option" where
  "tables_get (PStr s) = Inr (map_of mcs_tables s)"
| "tables_get (PList xs) = Inl TypeError"
| "tables_get (PDict d) = Inl TypeError"
| "tables_get v = Inr None"

text \<open>
  The \<open>for entry in mcs_table\<close> loop with its \<open>break\<close>: the first entry whose index
  equals \<open>mcs_index\<close> sets both results; with no such entry both keep their initial
  \<open>None\<close>.
\<close>

fun scan_entries :: "pyval list list \<Rightarrow> pyval \<Rightarrow> pyval \<Rightarrow> py_error + (pyval \<times> pyval)" where
  "scan_entries [] mcs_index bandwidth = Inr (PNone, PNone)"
| "scan_entries (entry # rest) mcs_index bandwidth =
     (case seq_get entry 0 of
        Inl e \<Rightarrow> Inl e
      | Inr e0 \<Rightarrow>
          if py_eq e0 mcs_index then
            (case seq_get entry 1 of
               Inl e \<Rightarrow> Inl e
             | Inr modulation \<Rightarrow>
                 (case (if py_eq bandwidth (PInt 20) then seq_get entry 2 else seq_get entry 3) of
                    Inl e \<Rightarrow> Inl e
                  | Inr datarate \<Rightarrow> Inr (modulation, datarate)))
          else scan_entries rest mcs_index bandwidth)"

text \<open>\<open>modulation, datarate = mcs_table[mcs_index]\<close>: index, then unpack a pair.\<close>

definition legacy_entry :: "pyval list list \<Rightarrow> pyval \<Rightarrow> py_error + (pyval \<times> pyval)" where
  "legacy_entry mcs_table mcs_index =
     (case seq_index mcs_table mcs_index of
        Inl e \<Rightarrow> Inl e
      | Inr [modulation, datarate] \<Rightarrow> Inr (modulation, datarate)
      | Inr other \<Rightarrow> Inl ValueError)"

text \<open>The function returns what it printed and either the exception or the pair.\<close>

definition get_modulation_and_datarate ::
    "pyval \<Rightarrow> pyval \<Rightarrow> pyval \<Rightarrow> event list \<times> (py_error + (pyval \<times> pyval))" where
  "get_modulation_and_datarate ieee_standard mcs_index bandwidth =
     (case tables_get ieee_standard of
        Inl e \<Rightarrow> ([], Inl e)
      | Inr None \<Rightarrow> ([NoMcsTableFound ieee_standard], Inr (PStr ''N/A'', PStr ''N/A''))
      | Inr (Some []) \<Rightarrow> ([NoMcsTableFound ieee_standard], Inr (PStr ''N/A'', PStr ''N/A''))
      | Inr (Some mcs_table) \<Rightarrow>
          if ieee_standard \<in> set (map PStr adaptive_standards)
          then ([], scan_entries mcs_table mcs_index bandwidth)
          else ([], legacy_entry mcs_table mcs_index))"


section \<open>The environment model (\<open>VANETEnv\<close>)\<close>

text \<open>
  \<open>current_state\<close> is \<open>None\<close> until \<open>reset\<close>, then the array \<open>np.array([...])\<close>
  built from two values: an array of numbers when both are numbers, and otherwise an
  array (or, after line 358, a list) of values that are not all numbers, on which
  arithmetic raises \<open>TypeError\<close>.
\<close>

datatype state_val = Unset | FloatArray "real list" | OtherArray "pyval list"

text \<open>
  The attributes of a \<open>VANETEnv\<close> object. \<open>__init__\<close> never assigns \<open>pi_b\<close>,
  \<open>pi_p_prime\<close>, \<open>pi_p2\<close> and \<open>kb\<close>: such an attribute is \<open>None\<close> while the object
  does not have it, and \<open>Some\<close> of its value once a caller has set it.
\<close>

record vanet_env =
  car_logs :: "pydict list"
  current_state :: state_val
  CBR_target :: real
  safety_distance :: real
  path_loss_exponent :: real
  sensitivity :: real
  message_size :: real
  ieee_standard :: pyval
  bandwidth :: pyval
  pi_b :: "real option"
  pi_p_prime :: "real option"
  pi_p2 :: "real option"
  kb :: "real option"

definition beta :: real where
  "beta = 3"

definition action_space_low :: real where
  "action_space_low = - 3"

definition action_space_high :: real where
  "action_space_high = 3"

definition VANETEnv_init :: "pydict list \<Rightarrow> pyval \<Rightarrow> pyval \<Rightarrow> vanet_env" where
  "VANETEnv_init logs std bw =
     \<lparr>car_logs = logs, current_state = Unset, CBR_target = 0.6, safety_distance = 100,
      path_loss_exponent = 2.5, sensitivity = - 92, message_size = 536,
      ieee_standard = std, bandwidth = bw,
      pi_b = None, pi_p_prime = None, pi_p2 = None, kb = None\<rparr>"

text \<open>\<open>random.choice(xs)\<close>, with the number the generator drew as an argument.\<close>

definition random_choice :: "'a list \<Rightarrow> nat \<Rightarrow> py_error + 'a" where
  "random_choice xs k = (if xs = [] then Inl IndexError else Inr (xs ! (k mod length xs)))"

definition np_array2 :: "pyval \<Rightarrow> pyval \<Rightarrow> state_val" where
  "np_array2 a b =
     (case (num_val a, num_val b) of
        (Some x, Some y) \<Rightarrow> FloatArray [x, y]
      | _ \<Rightarrow> OtherArray [a, b])"

text \<open>
  \<open>reset\<close> reads \<open>log['power_transmission']\<close> first and \<open>log['vehicle_density']\<close>
  second, as the list display evaluates them. It returns the environment and either the
  exception or the new state.
\<close>

definition reset :: "vanet_env \<Rightarrow> nat \<Rightarrow> vanet_env \<times> (py_error + state_val)" where
  "reset self k =
     (case random_choice (car_logs self) k of
        Inl e \<Rightarrow> (self, Inl e)
      | Inr car_log \<Rightarrow>
          (case dict_getitem car_log ''power_transmission'' of
             Inl e \<Rightarrow> (self, Inl e)
           | Inr pw \<Rightarrow>
               (case dict_getitem car_log ''vehicle_density'' of
                  Inl e \<Rightarrow> (self, Inl e)
                | Inr vd \<Rightarrow>
                    (self\<lparr>current_state := np_array2 pw vd\<rparr>, Inr (np_array2 pw vd)))))"

definition np_clip :: "real \<Rightarrow> real \<Rightarrow> real \<Rightarrow> real" where
  "np_clip x lo hi = min (max x lo) hi"

text \<open>
  \<open>state['cbr']\<close>: \<open>None\<close> is not subscriptable, and an array takes integers, slices
  and arrays as indices, never a string.
\<close>

definition state_getitem_str :: "state_val \<Rightarrow> string \<Rightarrow> py_error + real" where
  "state_getitem_str s k =
     (case s of
        Unset \<Rightarrow> Inl TypeError
      | FloatArray xs \<Rightarrow> Inl IndexError
      | OtherArray vs \<Rightarrow> Inl IndexError)"

text \<open>Reading an attribute that the object may not have.\<close>

definition getattr :: "real option \<Rightarrow> string \<Rightarrow> py_error + real" where
  "getattr a name = (case a of None \<Rightarrow> Inl (AttributeError name) | Some v \<Rightarrow> Inr v)"

definition H :: "real \<Rightarrow> real" where
  "H x = (if x \<ge> 0 then 1 else 0)"

definition g :: "real \<Rightarrow> real \<Rightarrow> real" where
  "g x k = x * (H x - 2 * H (x - k))"

definition reward_function :: "vanet_env \<Rightarrow> real \<Rightarrow> real \<Rightarrow> real \<Rightarrow> py_error + real" where
  "reward_function self cbr p p_prime =
     (case getattr (pi_b self) ''pi_b'' of
        Inl e \<Rightarrow> Inl e
      | Inr b \<Rightarrow>
          (case getattr (kb self) ''kb'' of
             Inl e \<Rightarrow> Inl e
           | Inr k \<Rightarrow>
               (case getattr (pi_p_prime self) ''pi_p_prime'' of
                  Inl e \<Rightarrow> Inl e
                | Inr pp \<Rightarrow>
                    (case getattr (pi_p2 self) ''pi_p2'' of
                       Inl e \<Rightarrow> Inl e
                     | Inr p2 \<Rightarrow>
                         (let reward = (b * g cbr k) - (pp * \<bar>p - p_prime\<bar>) - (p2 * g p_prime 20)
                          in if \<bar>cbr - CBR_target self\<bar> \<le> 0.025
                             then Inr (reward + 10)
                             else Inr (reward - 0.1))))))"

text \<open>
  \<open>step\<close> returns the environment as the call leaves it and either the exception or
  the tuple \<open>(state, reward, done, info)\<close>. The power \<open>**\<close> with the exponent
  \<open>1 / beta\<close> is \<open>powr\<close>; numpy's result for a negative base (NaN) is not modelled.
\<close>

definition step ::
    "vanet_env \<Rightarrow> real list \<Rightarrow> vanet_env \<times> (py_error + (state_val \<times> real \<times> bool \<times> pydict))" where
  "step self action =
     (case current_state self of
        Unset \<Rightarrow> (self, Inl TypeError)
      | OtherArray vs \<Rightarrow>
          (if length vs \<noteq> 2 then (self, Inl ValueError)
           else (case seq_get action 0 of
                   Inl e \<Rightarrow> (self, Inl e)
                 | Inr delta_p \<Rightarrow> (self, Inl TypeError)))
      | FloatArray [p, rho] \<Rightarrow>
          (case seq_get action 0 of
             Inl e \<Rightarrow> (self, Inl e)
           | Inr delta_p \<Rightarrow>
               (let new_p = np_clip (p + delta_p) 1 30;
                    rho' = rho * ((p / new_p) powr (1 / beta));
                    self' = self\<lparr>current_state := FloatArray [new_p, rho']\<rparr>
                in (case state_getitem_str (current_state self') ''cbr'' of
                      Inl e \<Rightarrow> (self', Inl e)
                    | Inr cbr \<Rightarrow>
                        (case reward_function self' cbr new_p p of
                           Inl e \<Rightarrow> (self', Inl e)
                         | Inr reward \<Rightarrow> (self', Inr (current_state self', reward, True, []))))))
      | FloatArray xs \<Rightarrow> (self, Inl ValueError))"

section \<open>The learner (\<open>PPOAgent\<close>)\<close>

text \<open>
  The policy weights are the single column of the 2-by-1 matrix \<open>policy_weights[0]\<close>,
  the value weights a vector of length 2. The agent's \<open>env\<close> is passed beside it.
\<close>

record ppo_agent =
  gamma :: real
  clip_ratio :: real
  policy_weights :: "real list"
  value_weights :: "real list"
  policy_lr :: real
  value_lr :: real

text \<open>\<open>__init__\<close> with its defaults; the arguments are what \<open>np.random.randn\<close> drew.\<close>

definition PPOAgent_init :: "real \<times> real \<Rightarrow> real \<times> real \<Rightarrow> ppo_agent" where
  "PPOAgent_init wp wv =
     \<lparr>gamma = 0.99, clip_ratio = 0.2,
      policy_weights = [fst wp / sqrt 2, snd wp / sqrt 2],
      value_weights = [fst wv / sqrt 2, snd wv / sqrt 2],
      policy_lr = 0.0003, value_lr = 0.0003\<rparr>"

definition np_dot :: "real list \<Rightarrow> real list \<Rightarrow> py_error + real" where
  "np_dot xs ws =
     (if length xs = length ws then Inr (sum_list (map2 (*) xs ws)) else Inl ValueError)"

text \<open>
  \<open>np.random.normal(mean, scale)\<close> is \<open>mean + scale * z\<close> for the standard normal
  draw \<open>z\<close>, an argument here, and raises \<open>ValueError\<close> on a negative scale.
\<close>

definition select_action :: "ppo_agent \<Rightarrow> state_val \<Rightarrow> real \<Rightarrow> py_error + real list" where
  "select_action self state z =
     (case state of
        Unset \<Rightarrow> Inl TypeError
      | OtherArray vs \<Rightarrow> Inl TypeError
      | FloatArray xs \<Rightarrow>
          (case np_dot xs (policy_weights self) of
             Inl e \<Rightarrow> Inl e
           | Inr mean_action \<Rightarrow>
               if clip_ratio self < 0 then Inl ValueError
               else Inr [np_clip (mean_action + clip_ratio self * z)
                           action_space_low action_space_high]))"

text \<open>The loop \<open>for t in reversed(range(0, len(rewards)))\<close> of \<open>update\<close>.\<close>

fun discount_loop :: "real \<Rightarrow> real list \<Rightarrow> nat list \<Rightarrow> real \<Rightarrow> real list \<Rightarrow> real list" where
  "discount_loop gam rewards [] running_add discounted = discounted"
| "discount_loop gam rewards (t # ts) running_add discounted =
     (let running_add' = running_add * gam + rewards ! t
      in discount_loop gam rewards ts running_add' (discounted[t := running_add']))"

definition discounted_rewards :: "real \<Rightarrow> real list \<Rightarrow> real list" where
  "discounted_rewards gam rewards =
     discount_loop gam rewards (rev [0..<length rewards]) 0 (replicate (length rewards) 0)"

definition np_mean :: "real list \<Rightarrow> real" where
  "np_mean xs = sum_list xs / real (length xs)"

definition np_std :: "real list \<Rightarrow> real" where
  "np_std xs = sqrt (np_mean (map (\<lambda>x. \<bar>x - np_mean xs\<bar> ^ 2) xs))"

definition normalize_returns :: "real list \<Rightarrow> real list" where
  "normalize_returns d = map (\<lambda>x. (x - np_mean d) / (np_std d + 1 / 10 ^ 10)) d"

text \<open>Subtraction of two vectors with numpy's broadcasting of a vector of length 1.\<close>

definition np_sub :: "real list \<Rightarrow> real list \<Rightarrow> py_error + real list" where
  "np_sub xs ys =
     (if length xs = length ys then Inr (map2 (-) xs ys)
      else if length xs = 1 then Inr (map (\<lambda>y. hd xs - y) ys)
      else if length ys = 1 then Inr (map (\<lambda>x. x - hd ys) xs)
      else Inl ValueError)"

fun np_dot_rows :: "real list list \<Rightarrow> real list \<Rightarrow> py_error + real list" where
  "np_dot_rows [] ws = Inr []"
| "np_dot_rows (row # rows) ws =
     (case np_dot row ws of
        Inl e \<Rightarrow> Inl e
      | Inr v \<Rightarrow> (case np_dot_rows rows ws of Inl e \<Rightarrow> Inl e | Inr vs \<Rightarrow> Inr (v # vs)))"

text \<open>
  The two loops \<open>for i, state in enumerate(states)\<close>. Each action is an array of
  shape \<open>(1,)\<close>; a row of another length does not fit the weight matrix. The rows of
  \<open>states\<close> have the length of the weights once \<open>np.dot(states, value_weights)\<close> has
  succeeded.
\<close>

fun policy_loop ::
    "real \<Rightarrow> real list \<Rightarrow> real list list \<Rightarrow> (nat \<times> real list) list \<Rightarrow> real list \<Rightarrow>
     py_error + real list" where
  "policy_loop lr advantages actions [] w = Inr w"
| "policy_loop lr advantages actions ((i, state) # rest) w =
     (case seq_get advantages (int i) of
        Inl e \<Rightarrow> Inl e
      | Inr adv \<Rightarrow>
          (case seq_get actions (int i) of
             Inl e \<Rightarrow> Inl e
           | Inr [a] \<Rightarrow>
               (case np_dot state w of
                  Inl e \<Rightarrow> Inl e
                | Inr m \<Rightarrow>
                    (let grad = adv * (a - m)
                     in policy_loop lr advantages actions rest
                          (map2 (\<lambda>wj sj. wj + lr * (sj * grad)) w state)))
           | Inr other \<Rightarrow> Inl ValueError))"

fun value_loop ::
    "real \<Rightarrow> real list \<Rightarrow> (nat \<times> real list) list \<Rightarrow> real list \<Rightarrow> py_error + real list" where
  "value_loop lr advantages [] v = Inr v"
| "value_loop lr advantages ((i, state) # rest) v =
     (case seq_get advantages (int i) of
        Inl e \<Rightarrow> Inl e
      | Inr grad_value \<Rightarrow>
          value_loop lr advantages rest (map2 (\<lambda>vj sj. vj + lr * grad_value * sj) v state))"

text \<open>
  \<open>update\<close> on the arrays \<open>np.array(states)\<close> and so on, each a list of rows; it
  returns the exception or the agent with its new weights. \<open>np.dot\<close> of an empty
  array with the weight vector raises \<open>ValueError\<close>.
\<close>

definition update ::
    "ppo_agent \<Rightarrow> real list list \<Rightarrow> real list list \<Rightarrow> real list \<Rightarrow> real list list \<Rightarrow>
     py_error + ppo_agent" where
  "update self states actions rewards next_states =
     (let discounted = normalize_returns (discounted_rewards (gamma self) rewards)
      in if states = [] then Inl ValueError
         else (case np_dot_rows states (value_weights self) of
                 Inl e \<Rightarrow> Inl e
               | Inr values \<Rightarrow>
                   (case np_sub discounted values of
                      Inl e \<Rightarrow> Inl e
                    | Inr advantages \<Rightarrow>
                        (case policy_loop (policy_lr self) advantages actions
                                (enumerate 0 states) (policy_weights self) of
                           Inl e \<Rightarrow> Inl e
                         | Inr w \<Rightarrow>
                             (case value_loop (value_lr self) advantages
                                     (enumerate 0 states) (value_weights self) of
                                Inl e \<Rightarrow> Inl e
                              | Inr v \<Rightarrow> Inr (self\<lparr>policy_weights := w, value_weights := v\<rparr>))))))"


section \<open>Training and the optimizer service (\<open>PPOAgent.train\<close>, \<open>Server\<close>)\<close>

text \<open>
  Everything the random generators draw during one pass: the two \<open>randn\<close> draws of
  \<open>PPOAgent.__init__\<close>, the draw of \<open>random.choice\<close> in each episode, the standard
  normal draw of each \<open>select_action\<close> (by episode and step), and the draw of the
  final \<open>select_action\<close>.
\<close>

record random_draws =
  randn_policy :: "real \<times> real"
  randn_value :: "real \<times> real"
  choice_draw :: "nat \<Rightarrow> nat"
  normal_draw :: "nat \<Rightarrow> nat \<Rightarrow> real"
  final_normal_draw :: real

text \<open>\<open>np.array\<close> of the buffered states, as \<open>update\<close> builds it.\<close>

fun np_array_states :: "state_val list \<Rightarrow> py_error + real list list" where
  "np_array_states [] = Inr []"
| "np_array_states (FloatArray xs # rest) =
     (case np_array_states rest of Inl e \<Rightarrow> Inl e | Inr rows \<Rightarrow> Inr (xs # rows))"
| "np_array_states (s # rest) = Inl TypeError"

definition update_buffers ::
    "ppo_agent \<Rightarrow> state_val list \<Rightarrow> real list list \<Rightarrow> real list \<Rightarrow> state_val list \<Rightarrow>
     py_error + ppo_agent" where
  "update_buffers self states actions rewards next_states =
     (case np_array_states states of
        Inl e \<Rightarrow> Inl e
      | Inr rows \<Rightarrow>
          (case np_array_states next_states of
             Inl e \<Rightarrow> Inl e
           | Inr next_rows \<Rightarrow> update self rows actions rewards next_rows))"

text \<open>No call of \<open>step\<close> returns a tuple, which is why the loop below ends.\<close>

lemma step_never_returns: "snd (step env action) \<noteq> Inr r"
  by (auto simp: step_def state_getitem_str_def Let_def
      split: state_val.splits list.splits sum.splits)

text \<open>
  The loop \<open>while not done\<close> of one episode, from the state \<open>reset\<close> returned. It
  carries the environment, the agent, the step number and the four buffers, and returns
  the exception or the rewards left in the buffer.
\<close>

function episode_loop ::
    "(nat \<Rightarrow> real) \<Rightarrow> nat \<Rightarrow> vanet_env \<Rightarrow> ppo_agent \<Rightarrow> state_val \<Rightarrow> nat \<Rightarrow>
     state_val list \<times> real list list \<times> real list \<times> state_val list \<Rightarrow>
     (vanet_env \<times> ppo_agent) \<times> (py_error + real list)" where
  "episode_loop noise batch_size env agent state n (states, actions, rewards, next_states) =
     (case select_action agent state (noise n) of
        Inl e \<Rightarrow> ((env, agent), Inl e)
      | Inr action \<Rightarrow>
          (case step env action of
             (env', Inl e) \<Rightarrow> ((env', agent), Inl e)
           | (env', Inr (next_state, reward, done, info)) \<Rightarrow>
               (let states' = states @ [state];
                    actions' = actions @ [action];
                    rewards' = rewards @ [reward];
                    next_states' = next_states @ [next_state]
                in if length rewards' \<ge> batch_size then
                     (case update_buffers agent states' actions' rewards' next_states' of
                        Inl e \<Rightarrow> ((env', agent), Inl e)
                      | Inr agent' \<Rightarrow>
                          if done then ((env', agent'), Inr [])
                          else episode_loop noise batch_size env' agent' next_state (Suc n)
                                 ([], [], [], []))
                   else if done then ((env', agent), Inr rewards')
                   else episode_loop noise batch_size env' agent next_state (Suc n)
                          (states', actions', rewards', next_states'))))"
  by pat_completeness auto
termination
proof (relation "{}")
  show "wf {}" by simp
qed (metis step_never_returns snd_conv)+

text \<open>The loop \<open>for episode in range(num_episodes)\<close>, with what it prints.\<close>

fun train_episodes ::
    "random_draws \<Rightarrow> nat \<Rightarrow> nat list \<Rightarrow> vanet_env \<Rightarrow> ppo_agent \<Rightarrow> real list \<Rightarrow> event list \<Rightarrow>
     (vanet_env \<times> ppo_agent \<times> event list) \<times> (py_error + real list)" where
  "train_episodes rnd batch_size [] env agent all_rewards evs =
     ((env, agent, evs), Inr all_rewards)"
| "train_episodes rnd batch_size (episode # rest) env agent all_rewards evs =
     (case reset env (choice_draw rnd episode) of
        (env1, Inl e) \<Rightarrow> ((env1, agent, evs), Inl e)
      | (env1, Inr state) \<Rightarrow>
          (case episode_loop (normal_draw rnd episode) batch_size env1 agent state 0
                  ([], [], [], []) of
             ((env2, agent2), Inl e) \<Rightarrow> ((env2, agent2, evs), Inl e)
           | ((env2, agent2), Inr rewards) \<Rightarrow>
               (let total_reward = sum_list rewards;
                    evs' = (if episode mod 100 = 0
                            then evs @ [EpisodeTotalReward episode total_reward] else evs)
                in train_episodes rnd batch_size rest env2 agent2
                     (all_rewards @ [total_reward]) evs')))"

text \<open>
  After the episodes \<open>train\<close> calls \<open>plt.plot\<close>, and \<open>PPO.py\<close> neither imports nor
  defines \<open>plt\<close>: the name lookup raises \<open>NameError\<close>.
\<close>

definition train ::
    "random_draws \<Rightarrow> vanet_env \<Rightarrow> ppo_agent \<Rightarrow> nat \<Rightarrow> nat \<Rightarrow>
     (vanet_env \<times> ppo_agent \<times> event list) \<times> (py_error + unit)" where
  "train rnd env agent num_episodes batch_size =
     (case train_episodes rnd batch_size [0..<num_episodes] env agent [] [] of
        (r, Inl e) \<Rightarrow> (r, Inl e)
      | (r, Inr all_rewards) \<Rightarrow> (r, Inl (NameError ''plt'')))"

text \<open>
  The \<open>Server\<close> object; its list of received logs is \<open>server_car_logs\<close> here, apart
  from the \<open>car_logs\<close> of an environment. \<open>net\<close> is \<open>None\<close> from \<open>__init__\<close> on and
  nothing assigns it.
\<close>

record server =
  host :: string
  port :: nat
  server_car_logs :: "pydict list"

text \<open>
  \<open>apply_optimized_settings\<close>: the call is the actuation command; inside,
  \<open>self.net.getNodeByName\<close> on \<open>None\<close> raises \<open>AttributeError\<close>, which the function
  catches and prints.
\<close>

definition apply_optimized_settings :: "server \<Rightarrow> pyval \<Rightarrow> real \<Rightarrow> pyval \<Rightarrow> event list" where
  "apply_optimized_settings self car_id power_transmission data_rate =
     [ApplyOptimizedSettings car_id power_transmission data_rate,
      ErrorApplyingSettings car_id (AttributeError ''getNodeByName'')]"

definition process_car_log ::
    "server \<Rightarrow> random_draws \<Rightarrow> pydict \<Rightarrow> event list \<times> (py_error + unit)" where
  "process_car_log self rnd car_log =
     (let std = dict_get car_log ''ieee_standard'' (PStr ''802.11g'');
          bw = dict_get car_log ''bandwidth'' (PInt 20);
          mcs_index = dict_get car_log ''mcs_index'' (PInt 0);
          env = VANETEnv_init [car_log] std bw;
          agent = PPOAgent_init (randn_policy rnd) (randn_value rnd)
      in (case train rnd env agent 1 128 of
            ((env', agent', evs), Inl e) \<Rightarrow> (evs, Inl e)
          | ((env', agent', evs), Inr u) \<Rightarrow>
              (case select_action agent' (current_state env') (final_normal_draw rnd) of
                 Inl e \<Rightarrow> (evs, Inl e)
               | Inr a \<Rightarrow>
                   (case seq_get a 0 of
                      Inl e \<Rightarrow> (evs, Inl e)
                    | Inr new_power_transmission \<Rightarrow>
                        (case get_modulation_and_datarate std mcs_index bw of
                           (evs2, Inl e) \<Rightarrow> (evs @ evs2, Inl e)
                         | (evs2, Inr (modulation, data_rate)) \<Rightarrow>
                             (case dict_getitem car_log ''vehicle_density'' of
                                Inl e \<Rightarrow> (evs @ evs2, Inl e)
                              | Inr vd \<Rightarrow>
                                  (case dict_getitem car_log ''car_id'' of
                                     Inl e \<Rightarrow> (evs @ evs2, Inl e)
                                   | Inr car_id \<Rightarrow>
                                       (evs @ evs2
                                          @ [AdjustedPower car_id new_power_transmission data_rate]
                                          @ apply_optimized_settings self car_id
                                              new_power_transmission data_rate,
                                        Inr ()))))))))"

text \<open>
  \<open>handle_client\<close> from what \<open>recv\<close> and \<open>json.loads\<close> gave: no data (the early
  return), an exception of the decoder, or the decoded record. It returns the server
  and the events of the call; the \<open>except Exception\<close> clause turns every exception
  into a printed line.
\<close>

definition handle_client ::
    "server \<Rightarrow> random_draws \<Rightarrow> (py_error + pydict) option \<Rightarrow> server \<times> event list" where
  "handle_client self rnd received =
     (case received of
        None \<Rightarrow> (self, [])
      | Some (Inl e) \<Rightarrow> (self, [ErrorHandlingClient e])
      | Some (Inr decoded_data) \<Rightarrow>
          (let self' = self\<lparr>server_car_logs := server_car_logs self @ [decoded_data]\<rparr>
           in (case process_car_log self' rnd decoded_data of
                 (evs, Inl e) \<Rightarrow> (self', evs @ [ErrorHandlingClient e])
               | (evs, Inr u) \<Rightarrow> (self', evs))))"

section \<open>The collector (\<open>server.py\<close>)\<close>









text \<open>A record with every field of the external JSON schema, and no other.\<close>

definition sample_record :: pydict where
  "sample_record =
     [(''timestamp'', PStr ''2025-01-01 00:00:00''), (''car_id'', PStr ''car1''),
      (''position'', PList [PFloat 10.5, PFloat 20.25]), (''speed'', PFloat 12.5),
      (''power_transmission'', PInt 15), (''data_rate'', PInt 18),
      (''modulation'', PStr ''QPSK''), (''beacon_rate'', PInt 10),
      (''channel_busy_ratio'', PFloat 0.6)]"

section \<open>Properties of the rate table\<close>

lemma py_eq_20: "py_eq bw (PInt 20) = (num_val bw = Some 20)"
  by (cases bw) (auto simp: py_eq_def)

text \<open>
  C2. The lookup is a function of its three arguments alone. With the standard
  802.11p and index 0 it gives BPSK at 3.0 whatever the bandwidth; with 802.11ax and
  index 3 it gives 16-QAM at 29.2 for the bandwidth 20 and at 60.0 for 40; a standard
  the table does not have gives the pair N/A, N/A; and for each of the four
  bandwidth-adaptive standards and each entry of its table, the entry's index gives
  the entry's modulation with the third component of the entry when the bandwidth is
  a number equal to 20 and with the fourth component for every other bandwidth.
\<close>

theorem rate_table_lookup:
  "get_modulation_and_datarate (PStr ''802.11p'') (PInt 0) bw =
     ([], Inr (PStr ''BPSK'', PFloat 3.0))
   \<and> get_modulation_and_datarate (PStr ''802.11ax'') (PInt 3) (PInt 20) =
       ([], Inr (PStr ''16-QAM'', PFloat 29.2))
   \<and> get_modulation_and_datarate (PStr ''802.11ax'') (PInt 3) (PInt 40) =
       ([], Inr (PStr ''16-QAM'', PFloat 60.0))
   \<and> (map_of mcs_tables s = None \<longrightarrow>
        snd (get_modulation_and_datarate (PStr s) idx bw) = Inr (PStr ''N/A'', PStr ''N/A''))
   \<and> (\<forall>std \<in> set adaptive_standards. \<forall>tab. map_of mcs_tables std = Some tab \<longrightarrow>
        (\<forall>entry \<in> set tab.
           get_modulation_and_datarate (PStr std) (entry ! 0) bw =
             ([], Inr (entry ! 1, if num_val bw = Some 20 then entry ! 2 else entry ! 3))))"
proof (intro conjI)
  show "get_modulation_and_datarate (PStr ''802.11p'') (PInt 0) bw =
          ([], Inr (PStr ''BPSK'', PFloat 3.0))"
    by (simp add: get_modulation_and_datarate_def mcs_tables_def adaptive_standards_def
        legacy_entry_def seq_get_def)
  show "get_modulation_and_datarate (PStr ''802.11ax'') (PInt 3) (PInt 20) =
          ([], Inr (PStr ''16-QAM'', PFloat 29.2))"
    by (simp add: get_modulation_and_datarate_def mcs_tables_def adaptive_standards_def
        seq_get_def py_eq_def)
  show "get_modulation_and_datarate (PStr ''802.11ax'') (PInt 3) (PInt 40) =
          ([], Inr (PStr ''16-QAM'', PFloat 60.0))"
    by (simp add: get_modulation_and_datarate_def mcs_tables_def adaptive_standards_def
        seq_get_def py_eq_def)
  show "map_of mcs_tables s = None \<longrightarrow>
        snd (get_modulation_and_datarate (PStr s) idx bw) = Inr (PStr ''N/A'', PStr ''N/A'')"
    by (simp add: get_modulation_and_datarate_def)
  show "\<forall>std \<in> set adaptive_standards. \<forall>tab. map_of mcs_tables std = Some tab \<longrightarrow>
        (\<forall>entry \<in> set tab.
           get_modulation_and_datarate (PStr std) (entry ! 0) bw =
             ([], Inr (entry ! 1, if num_val bw = Some 20 then entry ! 2 else entry ! 3)))"
    unfolding py_eq_20 [symmetric]
    by (simp add: get_modulation_and_datarate_def mcs_tables_def adaptive_standards_def
        seq_get_def py_eq_def)
qed

theorem rate_table_lookup_witness:
  "map_of mcs_tables ''802.11be'' = None
   \<and> snd (get_modulation_and_datarate (PStr ''802.11be'') (PInt 0) (PInt 20)) =
       Inr (PStr ''N/A'', PStr ''N/A'')
   \<and> ''802.11bd'' \<in> set adaptive_standards
   \<and> get_modulation_and_datarate (PStr ''802.11bd'') (PInt 9) (PInt 10) =
       ([], Inr (PStr ''256-QAM'', PFloat 210))
   \<and> get_modulation_and_datarate (PStr ''802.11bd'') (PInt 9) (PFloat 20) =
       ([], Inr (PStr ''256-QAM'', PFloat 105))"
proof -
  have none: "map_of mcs_tables ''802.11be'' = None"
    by (simp add: mcs_tables_def)
  have std: "''802.11bd'' \<in> set adaptive_standards"
    by (simp add: adaptive_standards_def)
  obtain tab where tab: "map_of mcs_tables ''802.11bd'' = Some tab"
    and entry: "[PInt 9, PStr ''256-QAM'', PFloat 105.0, PFloat 210.0] \<in> set tab"
    by (simp add: mcs_tables_def)
  from rate_table_lookup [of "PInt 10" "''802.11be''" "PInt 0"] std tab entry
  have wide: "get_modulation_and_datarate (PStr ''802.11bd'') (PInt 9) (PInt 10) =
      ([], Inr (PStr ''256-QAM'', PFloat 210))"
    by force
  from rate_table_lookup [of "PFloat 20" "''802.11be''" "PInt 0"] std tab entry
  have narrow: "get_modulation_and_datarate (PStr ''802.11bd'') (PInt 9) (PFloat 20) =
      ([], Inr (PStr ''256-QAM'', PFloat 105))"
    by force
  from rate_table_lookup [of "PInt 20" "''802.11be''" "PInt 0"] none
  have sentinel: "snd (get_modulation_and_datarate (PStr ''802.11be'') (PInt 0) (PInt 20)) =
      Inr (PStr ''N/A'', PStr ''N/A'')"
    by blast
  show ?thesis using none std wide narrow sentinel by blast
qed

lemma scan_entries_no_match:
  "\<forall>entry \<in> set tab. entry \<noteq> [] \<and> \<not> py_eq (entry ! 0) idx \<Longrightarrow>
   scan_entries tab idx bw = Inr (PNone, PNone)"
  by (induction tab) (auto simp: seq_get_def)

lemma adaptive_tables_nonempty:
  "std \<in> set adaptive_standards \<Longrightarrow> map_of mcs_tables std = Some tab \<Longrightarrow>
   tab \<noteq> [] \<and> (\<forall>entry \<in> set tab. entry \<noteq> [])"
  by (auto simp: adaptive_standards_def mcs_tables_def)

text \<open>
  C10. For a bandwidth-adaptive standard and an index that equals the index of no
  entry of the standard's table, the lookup returns the pair \<open>(None, None)\<close>, which is
  not the pair N/A, N/A, and prints nothing.
\<close>

theorem adaptive_lookup_no_match:
  assumes "std \<in> set adaptive_standards"
    and "map_of mcs_tables std = Some tab"
    and "\<forall>entry \<in> set tab. \<not> py_eq (entry ! 0) mcs_index"
  shows "get_modulation_and_datarate (PStr std) mcs_index bw = ([], Inr (PNone, PNone))"
proof -
  from adaptive_tables_nonempty [OF assms(1,2)]
  have ne: "tab \<noteq> []" and "\<forall>entry \<in> set tab. entry \<noteq> []" by auto
  with assms(3) have "scan_entries tab mcs_index bw = Inr (PNone, PNone)"
    by (intro scan_entries_no_match) auto
  with assms(1,2) ne show ?thesis
    by (cases tab) (auto simp: get_modulation_and_datarate_def)
qed

theorem adaptive_lookup_no_match_witness:
  "''802.11n'' \<in> set adaptive_standards
   \<and> (\<exists>tab. map_of mcs_tables ''802.11n'' = Some tab
        \<and> list_all (\<lambda>entry. \<not> py_eq (entry ! 0) (PInt 8)) tab)
   \<and> get_modulation_and_datarate (PStr ''802.11n'') (PInt 8) (PInt 20) =
       ([], Inr (PNone, PNone))"
proof -
  have std: "''802.11n'' \<in> set adaptive_standards"
    by (simp add: adaptive_standards_def)
  obtain tab where tab: "map_of mcs_tables ''802.11n'' = Some tab"
    and no: "list_all (\<lambda>entry. \<not> py_eq (entry ! 0) (PInt 8)) tab"
    by (simp add: mcs_tables_def py_eq_def)
  from no have "\<forall>entry \<in> set tab. \<not> py_eq (entry ! 0) (PInt 8)"
    by (simp add: list_all_iff)
  from adaptive_lookup_no_match [OF std tab this, of "PInt 20"] std tab no
  show ?thesis by blast
qed


section \<open>Properties of the environment model\<close>

text \<open>
  C1. Whatever the environment and the action, \<open>step\<close> ends in an exception and
  returns nothing. From a state of two numbers (power, density) and an action with a
  first component, it stores the clipped power and the new density as the state and
  then raises \<open>IndexError\<close> where it indexes that state with the string \<open>'cbr'\<close>.
\<close>

theorem step_always_raises:
  "(\<exists>e. snd (step self action) = Inl e)
   \<and> step (self\<lparr>current_state := FloatArray [p, rho]\<rparr>) (delta_p # rest) =
       (self\<lparr>current_state :=
           FloatArray [np_clip (p + delta_p) 1 30,
                       rho * ((p / np_clip (p + delta_p) 1 30) powr (1 / 3))]\<rparr>,
        Inl IndexError)"
proof
  show "\<exists>e. snd (step self action) = Inl e"
    using step_never_returns [of self action] by (cases "snd (step self action)") auto
  show "step (self\<lparr>current_state := FloatArray [p, rho]\<rparr>) (delta_p # rest) =
       (self\<lparr>current_state :=
           FloatArray [np_clip (p + delta_p) 1 30,
                       rho * ((p / np_clip (p + delta_p) 1 30) powr (1 / 3))]\<rparr>,
        Inl IndexError)"
    by (simp add: step_def state_getitem_str_def Let_def seq_get_def beta_def)
qed




text \<open>
  C4. At the state (15, 0.5) with the action 1, \<open>step\<close> stores the power 16 and then
  raises \<open>IndexError\<close>: it returns neither a power nor \<open>done\<close>.
\<close>

theorem step_raises_at_sample:
  "snd (step ((VANETEnv_init [] (PStr ''802.11p'') (PInt 20))
                \<lparr>current_state := FloatArray [15, 0.5]\<rparr>) [1])
     = Inl IndexError
   \<and> current_state (fst (step ((VANETEnv_init [] (PStr ''802.11p'') (PInt 20))
                               \<lparr>current_state := FloatArray [15, 0.5]\<rparr>) [1]))
     = FloatArray [16, 0.5 * ((15 / 16) powr (1 / 3))]"
  by (simp add: step_def state_getitem_str_def Let_def seq_get_def beta_def np_clip_def)




section \<open>Properties of the learner's update\<close>
















section \<open>Properties of the optimizer service\<close>

lemma reset_missing_key:
  "map_of car_log ''vehicle_density'' = None \<Longrightarrow>
   reset (VANETEnv_init [car_log] std bw) k =
     (VANETEnv_init [car_log] std bw,
      Inl (KeyError (if map_of car_log ''power_transmission'' = None
                     then ''power_transmission'' else ''vehicle_density'')))"
  by (auto simp: reset_def VANETEnv_init_def random_choice_def dict_getitem_def split: option.splits)

lemma train_missing_key:
  "map_of car_log ''vehicle_density'' = None \<Longrightarrow>
   train rnd (VANETEnv_init [car_log] std bw) agent (Suc n) batch_size =
     ((VANETEnv_init [car_log] std bw, agent, []),
      Inl (KeyError (if map_of car_log ''power_transmission'' = None
                     then ''power_transmission'' else ''vehicle_density'')))"
  by (simp add: train_def reset_missing_key upt_conv_Cons del: upt_Suc)

lemma process_car_log_missing_key:
  "map_of car_log ''vehicle_density'' = None \<Longrightarrow>
   process_car_log self rnd car_log =
     ([], Inl (KeyError (if map_of car_log ''power_transmission'' = None
                         then ''power_transmission'' else ''vehicle_density'')))"
  by (simp add: process_car_log_def Let_def train_missing_key)

text \<open>
  C9. For a record without the key \<open>vehicle_density\<close>, \<open>handle_client\<close> appends the
  record to the server's list of logs and emits one event only, the printed error of
  the \<open>KeyError\<close> that \<open>reset\<close> raised: no call of \<open>apply_optimized_settings\<close>. The
  key that \<open>reset\<close> fails on is \<open>vehicle_density\<close> for every record that has
  \<open>power_transmission\<close>, as every record of the external schema does; a dictionary
  that lacks \<open>power_transmission\<close> too fails one read earlier, on that key.
\<close>

theorem handle_client_missing_density:
  assumes "map_of car_log ''vehicle_density'' = None"
  shows "handle_client self rnd (Some (Inr car_log)) =
     (self\<lparr>server_car_logs := server_car_logs self @ [car_log]\<rparr>,
      [ErrorHandlingClient
         (KeyError (if map_of car_log ''power_transmission'' = None
                    then ''power_transmission'' else ''vehicle_density''))])
   \<and> fst (reset (VANETEnv_init [car_log] (dict_get car_log ''ieee_standard'' (PStr ''802.11g''))
                   (dict_get car_log ''bandwidth'' (PInt 20))) (choice_draw rnd 0)) =
       VANETEnv_init [car_log] (dict_get car_log ''ieee_standard'' (PStr ''802.11g''))
                   (dict_get car_log ''bandwidth'' (PInt 20))
   \<and> snd (reset (VANETEnv_init [car_log] (dict_get car_log ''ieee_standard'' (PStr ''802.11g''))
                   (dict_get car_log ''bandwidth'' (PInt 20))) (choice_draw rnd 0)) =
       Inl (KeyError (if map_of car_log ''power_transmission'' = None
                      then ''power_transmission'' else ''vehicle_density''))"
  using assms
  by (simp add: handle_client_def Let_def process_car_log_missing_key reset_missing_key)

theorem handle_client_missing_density_witness:
  "map_of sample_record ''vehicle_density'' = None
   \<and> handle_client \<lparr>host = ''localhost'', port = 9999, server_car_logs = []\<rparr>
        \<lparr>randn_policy = (0, 0), randn_value = (0, 0), choice_draw = (\<lambda>episode. 0),
         normal_draw = (\<lambda>episode n. 0), final_normal_draw = 0\<rparr>
        (Some (Inr sample_record)) =
       (\<lparr>host = ''localhost'', port = 9999, server_car_logs = [sample_record]\<rparr>,
        [ErrorHandlingClient (KeyError ''vehicle_density'')])"
proof -
  have h: "map_of sample_record ''vehicle_density'' = None"
    by (simp add: sample_record_def)
  have p: "map_of sample_record ''power_transmission'' \<noteq> None"
    by (simp add: sample_record_def)
  from handle_client_missing_density [OF h, of "\<lparr>host = ''localhost'', port = 9999, server_car_logs = []\<rparr>"
      "\<lparr>randn_policy = (0, 0), randn_value = (0, 0), choice_draw = (\<lambda>episode. 0),
         normal_draw = (\<lambda>episode n. 0), final_normal_draw = 0\<rparr>"] h p
  show ?thesis by simp
qed

text \<open>
  C7. The record of the scenario (power 15, data rate 18, CBR 0.6, no standard, index
  or bandwidth) yields no actuation command: \<open>process_car_log\<close> raises \<open>KeyError\<close>
  in \<open>reset\<close>. With a \<open>vehicle_density\<close> and a \<open>car_id\<close> added it raises
  \<open>IndexError\<close> in \<open>step\<close>, again before any command.
\<close>

theorem process_car_log_sample_raises:
  "process_car_log self rnd
     [(''power_transmission'', PInt 15), (''data_rate'', PInt 18),
      (''channel_busy_ratio'', PFloat 0.6)] =
     ([], Inl (KeyError ''vehicle_density''))
   \<and> process_car_log self rnd
     [(''car_id'', PStr ''car1''), (''power_transmission'', PInt 15), (''data_rate'', PInt 18),
      (''channel_busy_ratio'', PFloat 0.6), (''vehicle_density'', PFloat 0.1)] =
     ([], Inl IndexError)"
proof
  show "process_car_log self rnd
     [(''power_transmission'', PInt 15), (''data_rate'', PInt 18),
      (''channel_busy_ratio'', PFloat 0.6)] =
     ([], Inl (KeyError ''vehicle_density''))"
    by (simp add: process_car_log_missing_key)
  show "process_car_log self rnd
     [(''car_id'', PStr ''car1''), (''power_transmission'', PInt 15), (''data_rate'', PInt 18),
      (''channel_busy_ratio'', PFloat 0.6), (''vehicle_density'', PFloat 0.1)] =
     ([], Inl IndexError)"
    by (simp add: process_car_log_def Let_def train_def upt_rec reset_def VANETEnv_init_def
        random_choice_def dict_getitem_def dict_get_def np_array2_def select_action_def
        PPOAgent_init_def np_dot_def step_def seq_get_def state_getitem_str_def)
qed

section \<open>Properties of the collector\<close>






end
